theory Spec2Isabelle
  imports Main
begin

section \<open>GEMM partitioner configs of the XNNPACK backend\<close>

text \<open>
  A shallow embedding of \<^verbatim>\<open>backends/xnnpack/partition/config/gemm_configs.py\<close>.
  Graph nodes are Python objects compared by identity, so a node is an address
  (a natural number) into a store of node records. The methods read the store, and
  \<^verbatim>\<open>AddmmConfig.get_deps_from_src_partition\<close> rewrites the \<^verbatim>\<open>args\<close> and
  \<^verbatim>\<open>users\<close> attributes of the node under evaluation. Exceptions are
  values of the type \<open>error\<close>; the diagnostic callback \<^verbatim>\<open>why\<close> only logs and is
  left out.
\<close>

subsection \<open>Data model\<close>

datatype error = IndexError | AttributeError | TypeError

text \<open>An element of \<^verbatim>\<open>node.args\<close>: a node, \<^verbatim>\<open>None\<close>, a scalar or a list.\<close>

datatype arg = ANode nat | ANone | AInt int | ABool bool | AList "arg list"

text \<open>
  \<^verbatim>\<open>target\<close> stands for \<^verbatim>\<open>node.target.__name__\<close>; \<^verbatim>\<open>users\<close> lists the
  keys of the \<^verbatim>\<open>users\<close> dict in insertion order.
\<close>

record node =
  op :: string
  target :: string
  args :: "arg list"
  users :: "nat list"

type_synonym graph = "nat \<Rightarrow> node"

record source_partition =
  sp_nodes :: "nat list"
  sp_input_nodes :: "nat list"
  sp_output_nodes :: "nat list"

datatype ConfigPrecisionType = FP32 | STATIC_QUANT | DYNAMIC_QUANT

datatype family = Linear | Convolution | Addmm | MM

text \<open>
  The attributes a config object is built with. \<^verbatim>\<open>enabled_precision_types\<close> and
  \<^verbatim>\<open>force_non_static_weights_for_f32_linear\<close> are set by the base class
  \<^verbatim>\<open>XNNPartitionerConfig\<close>; \<open>family\<close> records the class, for method dispatch.
\<close>

record config =
  family :: family
  weight_idx :: nat
  bias_idx :: "nat option"
  act_idx :: nat
  fused_acts :: "string list"
  enabled_precision_types :: "ConfigPrecisionType list"
  force_non_static_weights_for_f32_linear :: bool

definition LinearConfig :: "ConfigPrecisionType list \<Rightarrow> bool \<Rightarrow> config" where
  "LinearConfig enabled force =
     \<lparr>family = Linear, weight_idx = 1, bias_idx = Some 2, act_idx = 0,
      fused_acts = [''relu.default'', ''hardtanh.default''],
      enabled_precision_types = enabled,
      force_non_static_weights_for_f32_linear = force\<rparr>"

definition ConvolutionConfig :: "ConfigPrecisionType list \<Rightarrow> bool \<Rightarrow> config" where
  "ConvolutionConfig enabled force =
     \<lparr>family = Convolution, weight_idx = 1, bias_idx = Some 2, act_idx = 0,
      fused_acts = [''relu.default'', ''hardtanh.default''],
      enabled_precision_types = enabled,
      force_non_static_weights_for_f32_linear = force\<rparr>"

definition AddmmConfig :: "ConfigPrecisionType list \<Rightarrow> bool \<Rightarrow> config" where
  "AddmmConfig enabled force =
     \<lparr>family = Addmm, weight_idx = 2, bias_idx = Some 0, act_idx = 1,
      fused_acts = [''relu.default'', ''hardtanh.default''],
      enabled_precision_types = enabled,
      force_non_static_weights_for_f32_linear = force\<rparr>"

definition MMConfig :: "ConfigPrecisionType list \<Rightarrow> bool \<Rightarrow> config" where
  "MMConfig enabled force =
     \<lparr>family = MM, weight_idx = 1, bias_idx = None, act_idx = 0,
      fused_acts = [''relu.default'', ''hardtanh.default''],
      enabled_precision_types = enabled,
      force_non_static_weights_for_f32_linear = force\<rparr>"

fun supported_precision_types :: "config \<Rightarrow> ConfigPrecisionType list" where
  "supported_precision_types cfg =
     (case family cfg of
        Linear \<Rightarrow> [DYNAMIC_QUANT, FP32, STATIC_QUANT]
      | Convolution \<Rightarrow> [FP32, STATIC_QUANT, DYNAMIC_QUANT]
      | Addmm \<Rightarrow> [FP32, STATIC_QUANT, DYNAMIC_QUANT]
      | MM \<Rightarrow> [FP32, STATIC_QUANT, DYNAMIC_QUANT])"

record quant_params =
  per_channel :: bool
  axis :: int

text \<open>
  The helpers imported from \<^verbatim>\<open>quant_utils\<close>, \<^verbatim>\<open>utils\<close>, \<^verbatim>\<open>transforms\<close>,
  \<^verbatim>\<open>quant_params\<close>, \<^verbatim>\<open>config_partitioner\<close>, \<^verbatim>\<open>source_matcher_utils\<close> and the
  base class are not part of this file. They are parameters: a record of
  functions of the node store and a node. \<open>'ep\<close> is the exported program apart
  from the nodes of its graph.
\<close>

record 'ep env =
  is_dequant :: "graph \<Rightarrow> nat \<Rightarrow> bool"
  is_quant :: "graph \<Rightarrow> nat \<Rightarrow> bool"
  is_dynamic_qdq :: "graph \<Rightarrow> nat \<Rightarrow> bool"
  is_per_tensor :: "graph \<Rightarrow> nat \<Rightarrow> bool"
  is_per_channel :: "graph \<Rightarrow> nat \<Rightarrow> bool"
  is_per_channel_group :: "graph \<Rightarrow> nat \<Rightarrow> bool"
  is_affine_qdq :: "graph \<Rightarrow> nat \<Rightarrow> bool"
  is_qparam :: "graph \<Rightarrow> nat \<Rightarrow> bool"
  is_getitem :: "graph \<Rightarrow> nat \<Rightarrow> bool"
  is_param_node :: "'ep \<Rightarrow> graph \<Rightarrow> nat \<Rightarrow> bool"
  extract_qdq_affine_op_args_for_decomposed_ops :: "graph \<Rightarrow> nat \<Rightarrow> arg list"
  format_target_name :: "string \<Rightarrow> string"
  get_source_partitions :: "graph \<Rightarrow> source_partition list list"
  check_common_constraints :: "'ep \<Rightarrow> graph \<Rightarrow> nat \<Rightarrow> bool"
  get_shape :: "graph \<Rightarrow> nat \<Rightarrow> int list"
  from_weights :: "'ep \<Rightarrow> graph \<Rightarrow> nat \<Rightarrow> quant_params option"
  is_depthwise_conv :: "int list \<Rightarrow> arg \<Rightarrow> arg \<Rightarrow> bool"

text \<open>
  The mutable state: the node store, the nodes tagged by
  \<^verbatim>\<open>tag_as_implicit_q_dq\<close> (an entry of \<^verbatim>\<open>node.meta\<close> that none of the methods
  reads back), and the attribute \<^verbatim>\<open>self.src_partitions\<close> of the config object
  (\<^verbatim>\<open>None\<close>, or the values of the cached dict, in order).
\<close>

record state =
  nodes :: graph
  implicit_q_dq :: "nat set"
  src_partitions :: "source_partition list list option"

subsection \<open>Python primitives\<close>

definition bindE :: "error + 'a \<Rightarrow> ('a \<Rightarrow> error + 'b) \<Rightarrow> error + 'b" where
  "bindE m f = (case m of Inl e \<Rightarrow> Inl e | Inr x \<Rightarrow> f x)"

text \<open>\<^verbatim>\<open>xs[i]\<close> for an index that is not negative.\<close>

definition subscript :: "'a list \<Rightarrow> nat \<Rightarrow> error + 'a" where
  "subscript xs i = (if i < length xs then Inr (xs ! i) else Inl IndexError)"

text \<open>
  Reading an attribute of a node (\<^verbatim>\<open>.op\<close>, \<^verbatim>\<open>.target\<close>, \<^verbatim>\<open>.args\<close>,
  \<^verbatim>\<open>.all_input_nodes\<close>), which every helper predicate does first, raises
  \<^verbatim>\<open>AttributeError\<close> on an argument that is not a node.
\<close>

definition node_of :: "arg \<Rightarrow> error + nat" where
  "node_of a = (case a of ANode n \<Rightarrow> Inr n | _ \<Rightarrow> Inl AttributeError)"

text \<open>\<^verbatim>\<open>is_node(x)\<close> is \<^verbatim>\<open>isinstance(x, torch.fx.Node)\<close>.\<close>

definition is_node :: "arg \<Rightarrow> bool" where
  "is_node a = (case a of ANode n \<Rightarrow> True | _ \<Rightarrow> False)"

text \<open>Python truthiness of an argument (\<^verbatim>\<open>if bias_node:\<close>, \<^verbatim>\<open>is_transpose and ...\<close>).\<close>

definition truthy :: "arg \<Rightarrow> bool" where
  "truthy a = (case a of ANode n \<Rightarrow> True | ANone \<Rightarrow> False | AInt i \<Rightarrow> i \<noteq> 0
                | ABool b \<Rightarrow> b | AList xs \<Rightarrow> xs \<noteq> [])"

text \<open>\<^verbatim>\<open>len(x)\<close>: only a list has a length.\<close>

definition len_arg :: "arg \<Rightarrow> error + nat" where
  "len_arg a = (case a of AList xs \<Rightarrow> Inr (length xs) | _ \<Rightarrow> Inl TypeError)"

text \<open>An argument used as a number in a comparison (\<^verbatim>\<open>groups > 1\<close>).\<close>

definition int_of_arg :: "arg \<Rightarrow> error + int" where
  "int_of_arg a = (case a of AInt i \<Rightarrow> Inr i | ABool b \<Rightarrow> Inr (if b then 1 else 0)
                    | _ \<Rightarrow> Inl TypeError)"

text \<open>\<^verbatim>\<open>x != 0\<close>.\<close>

definition neq_zero :: "arg \<Rightarrow> bool" where
  "neq_zero a = (case a of AInt i \<Rightarrow> i \<noteq> 0 | ABool b \<Rightarrow> b | _ \<Rightarrow> True)"

text \<open>
  \<^verbatim>\<open>node.all_input_nodes\<close> of torch.fx: the nodes among the arguments, nested
  lists included, each once, in the order of first occurrence (keyword arguments
  are not modelled).
\<close>

fun arg_nodes :: "arg \<Rightarrow> nat list" where
  "arg_nodes (ANode n) = [n]"
| "arg_nodes (AList xs) = concat (map arg_nodes xs)"
| "arg_nodes ANone = []"
| "arg_nodes (AInt i) = []"
| "arg_nodes (ABool b) = []"

definition all_input_nodes :: "graph \<Rightarrow> nat \<Rightarrow> nat list" where
  "all_input_nodes g n = rev (remdups (rev (concat (map arg_nodes (args (g n))))))"

text \<open>\<^verbatim>\<open>get_input_node(node, i)\<close> of \<^verbatim>\<open>utils.utils\<close> is \<^verbatim>\<open>node.args[i]\<close>.\<close>

definition get_input_node :: "graph \<Rightarrow> nat \<Rightarrow> nat \<Rightarrow> error + arg" where
  "get_input_node g n i = subscript (args (g n)) i"

subsection \<open>GEMMConfig\<close>

definition detect_precision ::
  "config \<Rightarrow> 'ep env \<Rightarrow> graph \<Rightarrow> nat \<Rightarrow> error + ConfigPrecisionType" where
  "detect_precision cfg env g n =
     bindE (get_input_node g n (weight_idx cfg)) (\<lambda>weight.
     bindE (node_of weight) (\<lambda>w.
       if \<not> is_dequant env g w then Inr FP32
       else
         bindE (get_input_node g n (act_idx cfg)) (\<lambda>activation.
         bindE (node_of activation) (\<lambda>a.
           if is_dynamic_qdq env g a then Inr DYNAMIC_QUANT
           else Inr STATIC_QUANT))))"

definition overwrite_precision ::
  "config \<Rightarrow> 'ep env \<Rightarrow> graph \<Rightarrow> nat \<Rightarrow> error + (bool \<times> ConfigPrecisionType)" where
  "overwrite_precision cfg env g n =
     bindE (detect_precision cfg env g n) (\<lambda>precision.
       if precision \<notin> set (enabled_precision_types cfg)
          \<and> enabled_precision_types cfg = [FP32]
          \<and> precision \<in> set [STATIC_QUANT, DYNAMIC_QUANT]
       then Inr (True, FP32)
       else Inr (False, precision))"

definition GEMMConfig_get_weight_deps ::
  "config \<Rightarrow> 'ep env \<Rightarrow> 'ep \<Rightarrow> graph \<Rightarrow> nat \<Rightarrow> ConfigPrecisionType
     \<Rightarrow> error + (bool \<times> nat list)" where
  "GEMMConfig_get_weight_deps cfg env ep g n precision =
     (if precision = FP32 then
        bindE (get_input_node g n (weight_idx cfg)) (\<lambda>weight_arg.
        bindE (node_of weight_arg) (\<lambda>weight_node.
          if \<not> is_param_node env ep g weight_node then Inr (False, [])
          else Inr (True, [weight_node])))
      else
        bindE (get_input_node g n (weight_idx cfg)) (\<lambda>dequant_arg.
        bindE (node_of dequant_arg) (\<lambda>dequant_node.
          if \<not> is_dequant env g dequant_node then Inr (False, [])
          else
            bindE (get_input_node g dequant_node 0) (\<lambda>weight_arg.
            bindE (node_of weight_arg) (\<lambda>weight.
              if \<not> is_param_node env ep g weight then Inr (False, [])
              else if is_per_tensor env g dequant_node \<and> precision = DYNAMIC_QUANT
              then Inr (False, [])
              else if is_per_channel env g dequant_node
                      \<or> is_per_channel_group env g dequant_node
              then
                (if length (all_input_nodes g dequant_node) < 2 then Inr (False, [])
                 else Inr (True, [dequant_node, weight]
                                   @ take 2 (drop 1 (all_input_nodes g dequant_node))))
              else Inr (True, [dequant_node, weight]))))))"

text \<open>
  \<^verbatim>\<open>n_output.op == "call_function" and
  format_target_name(n_output.target.__name__) in self.fused_acts\<close>
\<close>

definition is_fused_act :: "config \<Rightarrow> 'ep env \<Rightarrow> graph \<Rightarrow> nat \<Rightarrow> bool" where
  "is_fused_act cfg env g m =
     (op (g m) = ''call_function''
      \<and> format_target_name env (target (g m)) \<in> set (fused_acts cfg))"

definition GEMMConfig_get_output_deps ::
  "config \<Rightarrow> 'ep env \<Rightarrow> 'ep \<Rightarrow> graph \<Rightarrow> nat \<Rightarrow> ConfigPrecisionType
     \<Rightarrow> error + (bool \<times> nat list)" where
  "GEMMConfig_get_output_deps cfg env ep g n precision =
     (if precision = STATIC_QUANT then
        (let node_users = users (g n) in
         if length node_users \<noteq> 1 then Inr (False, [])
         else
           (let n_output = node_users ! 0;
                fused = is_fused_act cfg env g n_output;
                gemm_deps = (if fused then [n_output] else []);
                fused_out_users = users (g n_output);
                n_output' = (if fused \<and> length fused_out_users = 1
                             then fused_out_users ! 0 else n_output)
            in if \<not> is_quant env g n_output' then Inr (False, [])
               else Inr (True, gemm_deps @ [n_output'])))
      else if precision = FP32 then
        (let node_users = users (g n) in
         if length node_users = 1 \<and> is_fused_act cfg env g (node_users ! 0)
         then Inr (True, [node_users ! 0])
         else Inr (True, []))
      else Inr (True, []))"

definition GEMMConfig_get_bias_deps ::
  "config \<Rightarrow> 'ep env \<Rightarrow> 'ep \<Rightarrow> graph \<Rightarrow> nat \<Rightarrow> ConfigPrecisionType
     \<Rightarrow> error + (bool \<times> nat list)" where
  "GEMMConfig_get_bias_deps cfg env ep g n precision =
     (if precision = FP32 \<and> force_non_static_weights_for_f32_linear cfg
      then Inr (True, [])
      else
        (case bias_idx cfg of
           None \<Rightarrow> Inr (True, [])
         | Some b \<Rightarrow>
             if length (all_input_nodes g n) > 2 then
               bindE (get_input_node g n b) (\<lambda>bias_arg.
                 if truthy bias_arg then
                   bindE (node_of bias_arg) (\<lambda>bias_node.
                     if \<not> is_param_node env ep g bias_node then Inr (False, [])
                     else Inr (True, [bias_node]))
                 else Inr (True, []))
             else Inr (True, [])))"

definition GEMMConfig_get_act_deps ::
  "config \<Rightarrow> 'ep env \<Rightarrow> 'ep \<Rightarrow> graph \<Rightarrow> nat \<Rightarrow> ConfigPrecisionType
     \<Rightarrow> error + (bool \<times> nat list)" where
  "GEMMConfig_get_act_deps cfg env ep g n precision =
     (if precision = FP32 then Inr (True, [])
      else
        bindE (get_input_node g n (act_idx cfg)) (\<lambda>dq_arg.
        bindE (node_of dq_arg) (\<lambda>dq_input.
          if \<not> is_dequant env g dq_input then Inr (False, [])
          else if precision = STATIC_QUANT then Inr (True, [dq_input])
          else
            bindE (get_input_node g dq_input 0) (\<lambda>q_arg.
            bindE (node_of q_arg) (\<lambda>q_input.
              if \<not> is_quant env g q_input then Inr (False, [])
              else
                (let q_input_args =
                       (if is_affine_qdq env g q_input
                        then extract_qdq_affine_op_args_for_decomposed_ops env g q_input
                        else args (g q_input))
                 in
                 bindE (subscript q_input_args 1) (\<lambda>a1.
                   if \<not> is_node a1 then Inr (False, [])
                   else
                     bindE (subscript q_input_args 2) (\<lambda>a2.
                       if \<not> is_node a2 then Inr (False, [])
                       else
                         bindE (node_of a1) (\<lambda>getitem1.
                         bindE (node_of a2) (\<lambda>getitem2.
                           if \<not> (is_getitem env g getitem1 \<and> is_getitem env g getitem2)
                           then Inr (False, [])
                           else
                             bindE (get_input_node g getitem1 0) (\<lambda>cq_arg.
                             bindE (node_of cq_arg) (\<lambda>choose_qparam.
                               if \<not> is_qparam env g choose_qparam then Inr (False, [])
                               else Inr (True, [dq_input, q_input, getitem1, getitem2,
                                                choose_qparam])))))))))))))"

subsection \<open>The overrides of \<^verbatim>\<open>_get_weight_deps\<close>\<close>

text \<open>
  \<^verbatim>\<open>self._get_weight_deps\<close>, dispatched on the class: \<^verbatim>\<open>LinearConfig\<close>,
  \<^verbatim>\<open>AddmmConfig\<close> and \<^verbatim>\<open>MMConfig\<close> override it and fall back on
  \<^verbatim>\<open>GEMMConfig\<close>'s (\<^verbatim>\<open>MMConfig\<close> through \<^verbatim>\<open>AddmmConfig\<close>, which repeats the
  same test).
\<close>

definition get_weight_deps ::
  "config \<Rightarrow> 'ep env \<Rightarrow> 'ep \<Rightarrow> graph \<Rightarrow> nat \<Rightarrow> ConfigPrecisionType
     \<Rightarrow> error + (bool \<times> nat list)" where
  "get_weight_deps cfg env ep g n precision =
     (case family cfg of
        Convolution \<Rightarrow> GEMMConfig_get_weight_deps cfg env ep g n precision
      | Linear \<Rightarrow>
          if precision = FP32 \<and> force_non_static_weights_for_f32_linear cfg
          then Inr (True, [])
          else
            bindE (overwrite_precision cfg env g n) (\<lambda>(overwritten, new_precision).
              if new_precision = FP32 \<and> overwritten then Inr (True, [])
              else GEMMConfig_get_weight_deps cfg env ep g n precision)
      | Addmm \<Rightarrow>
          if precision = FP32 \<and> force_non_static_weights_for_f32_linear cfg
          then Inr (True, [])
          else GEMMConfig_get_weight_deps cfg env ep g n precision
      | MM \<Rightarrow>
          if precision = FP32 \<and> force_non_static_weights_for_f32_linear cfg
          then Inr (True, [])
          else if precision = FP32 \<and> force_non_static_weights_for_f32_linear cfg
          then Inr (True, [])
          else GEMMConfig_get_weight_deps cfg env ep g n precision)"

subsection \<open>\<^verbatim>\<open>GEMMConfig.get_deps\<close>\<close>

text \<open>
  \<^verbatim>\<open>tag_as_implicit_q_dq(node)\<close> of \<^verbatim>\<open>quant_utils\<close> marks the node as an implicit
  quantize or dequantize node.
\<close>

definition tag_as_implicit_q_dq :: "state \<Rightarrow> nat \<Rightarrow> state" where
  "tag_as_implicit_q_dq s dep = s\<lparr>implicit_q_dq := insert dep (implicit_q_dq s)\<rparr>"

definition tag_deps :: "'ep env \<Rightarrow> state \<Rightarrow> nat list \<Rightarrow> state" where
  "tag_deps env s deps =
     fold (\<lambda>dep s'. if is_dequant env (nodes s') dep \<or> is_quant env (nodes s') dep
                      then tag_as_implicit_q_dq s' dep else s') deps s"

definition GEMMConfig_get_deps ::
  "config \<Rightarrow> 'ep env \<Rightarrow> 'ep \<Rightarrow> state \<Rightarrow> nat
     \<Rightarrow> error + ((bool \<times> nat list) \<times> state)" where
  "GEMMConfig_get_deps cfg env ep s n =
     bindE (detect_precision cfg env (nodes s) n) (\<lambda>detected.
       if detected \<notin> set (supported_precision_types cfg) then Inr ((False, []), s)
       else
         bindE (overwrite_precision cfg env (nodes s) n) (\<lambda>(overwritten, precision).
         bindE (GEMMConfig_get_bias_deps cfg env ep (nodes s) n precision)
           (\<lambda>(valid_bias, bias_deps).
         bindE (get_weight_deps cfg env ep (nodes s) n precision)
           (\<lambda>(valid_weight, weight_deps).
         bindE (GEMMConfig_get_act_deps cfg env ep (nodes s) n precision)
           (\<lambda>(valid_act, act_deps).
         bindE (GEMMConfig_get_output_deps cfg env ep (nodes s) n precision)
           (\<lambda>(valid_output, output_deps).
           (let valid_deps = (valid_bias \<and> valid_weight \<and> valid_act \<and> valid_output);
                deps = bias_deps @ weight_deps @ act_deps @ output_deps
            in Inr ((valid_deps, deps), tag_deps env s deps))))))))"

subsection \<open>AddmmConfig\<close>

text \<open>
  The nested \<^verbatim>\<open>find_partition_args\<close>: a \<^verbatim>\<open>while\<close> loop that follows the first
  input node until it meets an input node of the partition or a node without
  inputs. On a cyclic store it does not return, which is the value \<open>None\<close>.
\<close>

partial_function (option) find_partition_args ::
  "graph \<Rightarrow> source_partition \<Rightarrow> nat \<Rightarrow> nat option" where
  "find_partition_args g sp input_node =
     (if length (all_input_nodes g input_node) \<noteq> 0
         \<and> input_node \<notin> set (sp_input_nodes sp)
      then find_partition_args g sp (all_input_nodes g input_node ! 0)
      else Some input_node)"

declare find_partition_args.simps [code]

text \<open>
  The loop \<^verbatim>\<open>for arg in node.args: fake_args.append(find_partition_args(arg))\<close>;
  an argument that is not a node has no \<^verbatim>\<open>all_input_nodes\<close>.
\<close>

fun build_fake_args ::
  "graph \<Rightarrow> source_partition \<Rightarrow> arg list \<Rightarrow> (error + nat list) option" where
  "build_fake_args g sp [] = Some (Inr [])"
| "build_fake_args g sp (a # rest) =
     (case node_of a of
        Inl e \<Rightarrow> Some (Inl e)
      | Inr m \<Rightarrow>
          (case find_partition_args g sp m of
             None \<Rightarrow> None
           | Some f \<Rightarrow>
               (case build_fake_args g sp rest of
                  None \<Rightarrow> None
                | Some (Inl e) \<Rightarrow> Some (Inl e)
                | Some (Inr fs) \<Rightarrow> Some (Inr (f # fs)))))"

text \<open>
  The condition of \<^verbatim>\<open>if (...): why(node, "invalid source partition")\<close>, with
  Python's short-circuit evaluation: \<^verbatim>\<open>self.bias_idx and ...\<close> is false for
  \<^verbatim>\<open>None\<close> and for the index \<^verbatim>\<open>0\<close>.
\<close>

definition invalid_source_partition ::
  "config \<Rightarrow> source_partition \<Rightarrow> nat list \<Rightarrow> error + bool" where
  "invalid_source_partition cfg sp fake_args =
     bindE (case bias_idx cfg of
              None \<Rightarrow> Inr False
            | Some b \<Rightarrow>
                if b = 0 then Inr False
                else bindE (subscript fake_args b) (\<lambda>bias.
                       Inr (bias \<notin> set (sp_nodes sp)))) (\<lambda>bias_bad.
       if bias_bad then Inr True
       else
         bindE (subscript fake_args (act_idx cfg)) (\<lambda>act.
           if act \<notin> set (sp_input_nodes sp) then Inr True
           else
             bindE (subscript fake_args (weight_idx cfg)) (\<lambda>weight.
               if weight \<notin> set (sp_nodes sp @ sp_input_nodes sp) then Inr True
               else Inr (length (sp_output_nodes sp) \<noteq> 1))))"

text \<open>
  \<^verbatim>\<open>list(set(deps) & set(src_partition.nodes))\<close> and
  \<^verbatim>\<open>list(set(deps) | set(src_partition.nodes))\<close>. Python fixes no order for the
  resulting list; the model lists the elements in the order of \<open>deps\<close> and then of
  the partition's nodes.
\<close>

definition list_set_inter :: "nat list \<Rightarrow> nat list \<Rightarrow> nat list" where
  "list_set_inter xs ys = remdups (filter (\<lambda>x. x \<in> set ys) xs)"

definition list_set_union :: "nat list \<Rightarrow> nat list \<Rightarrow> nat list" where
  "list_set_union xs ys = remdups (xs @ ys)"

text \<open>
  The assignments \<^verbatim>\<open>node.args = ...\<close> and \<^verbatim>\<open>node.users = ...\<close>, as
  assignments to the two attributes of the node. (torch.fx also mirrors a change
  of \<^verbatim>\<open>args\<close> in the \<^verbatim>\<open>users\<close> dicts of the operand nodes, dropping and
  re-entering the node there; that bookkeeping of other nodes is not part of the
  model.)
\<close>

definition set_args :: "state \<Rightarrow> nat \<Rightarrow> arg list \<Rightarrow> state" where
  "set_args s n new_args = s\<lparr>nodes := (nodes s)(n := (nodes s n)\<lparr>args := new_args\<rparr>)\<rparr>"

definition set_users :: "state \<Rightarrow> nat \<Rightarrow> nat list \<Rightarrow> state" where
  "set_users s n new_users = s\<lparr>nodes := (nodes s)(n := (nodes s n)\<lparr>users := new_users\<rparr>)\<rparr>"

definition get_deps_from_src_partition ::
  "config \<Rightarrow> 'ep env \<Rightarrow> 'ep \<Rightarrow> state \<Rightarrow> nat \<Rightarrow> source_partition
     \<Rightarrow> (error + ((bool \<times> nat list) \<times> state)) option" where
  "get_deps_from_src_partition cfg env ep s n src_partition =
     (let old_args = args (nodes s n); old_users = users (nodes s n) in
      case build_fake_args (nodes s) src_partition old_args of
        None \<Rightarrow> None
      | Some (Inl e) \<Rightarrow> Some (Inl e)
      | Some (Inr fake_args) \<Rightarrow>
          Some (bindE (invalid_source_partition cfg src_partition fake_args) (\<lambda>invalid.
            if invalid then Inr ((False, []), s)
            else
              (let s1 = set_args s n (map ANode fake_args);
                   s2 = set_users s1 n (users (nodes s1 (sp_output_nodes src_partition ! 0)))
               in
               bindE (GEMMConfig_get_deps cfg env ep s2 n) (\<lambda>((valid_deps, deps), s3).
                 (let s4 = set_args s3 n old_args;
                      s5 = set_users s4 n old_users;
                      ret_deps =
                        (if force_non_static_weights_for_f32_linear cfg
                         then list_set_inter deps (sp_nodes src_partition)
                         else list_set_union deps (sp_nodes src_partition))
                  in Inr ((valid_deps, ret_deps), s5)))))))"

text \<open>
  The search \<^verbatim>\<open>for partition_list in self.src_partitions.values(): for partition
  in partition_list: if node in partition.nodes: src_partition = partition\<close>: the
  last partition that holds the node wins.
\<close>

definition find_src_partition ::
  "source_partition list list \<Rightarrow> nat \<Rightarrow> source_partition option" where
  "find_src_partition parts n =
     fold (\<lambda>partition found. if n \<in> set (sp_nodes partition) then Some partition else found)
       (concat parts) None"

definition AddmmConfig_get_deps ::
  "config \<Rightarrow> 'ep env \<Rightarrow> 'ep \<Rightarrow> state \<Rightarrow> nat
     \<Rightarrow> (error + ((bool \<times> nat list) \<times> state)) option" where
  "AddmmConfig_get_deps cfg env ep s n =
     (let s1 = (case src_partitions s of
                  None \<Rightarrow> s\<lparr>src_partitions := Some (get_source_partitions env (nodes s))\<rparr>
                | Some cached \<Rightarrow> s)
      in case find_src_partition (case src_partitions s1 of None \<Rightarrow> [] | Some c \<Rightarrow> c) n of
           Some src_partition \<Rightarrow> get_deps_from_src_partition cfg env ep s1 n src_partition
         | None \<Rightarrow> Some (GEMMConfig_get_deps cfg env ep s1 n))"

subsection \<open>Entry points\<close>

text \<open>\<^verbatim>\<open>self.get_deps\<close>, dispatched on the class.\<close>

definition get_deps ::
  "config \<Rightarrow> 'ep env \<Rightarrow> 'ep \<Rightarrow> state \<Rightarrow> nat
     \<Rightarrow> (error + ((bool \<times> nat list) \<times> state)) option" where
  "get_deps cfg env ep s n =
     (case family cfg of
        Linear \<Rightarrow> Some (GEMMConfig_get_deps cfg env ep s n)
      | Convolution \<Rightarrow> Some (GEMMConfig_get_deps cfg env ep s n)
      | Addmm \<Rightarrow> AddmmConfig_get_deps cfg env ep s n
      | MM \<Rightarrow> AddmmConfig_get_deps cfg env ep s n)"

definition get_node_and_deps ::
  "config \<Rightarrow> 'ep env \<Rightarrow> 'ep \<Rightarrow> state \<Rightarrow> nat
     \<Rightarrow> (error + (nat list \<times> state)) option" where
  "get_node_and_deps cfg env ep s n =
     (case get_deps cfg env ep s n of
        None \<Rightarrow> None
      | Some r \<Rightarrow> Some (bindE r (\<lambda>((valid, deps), s'). Inr ([n] @ deps, s'))))"

definition GEMMConfig_check_constraints ::
  "config \<Rightarrow> 'ep env \<Rightarrow> 'ep \<Rightarrow> state \<Rightarrow> nat \<Rightarrow> (error + (bool \<times> state)) option" where
  "GEMMConfig_check_constraints cfg env ep s n =
     (if \<not> check_common_constraints env ep (nodes s) n then Some (Inr (False, s))
      else
        (case get_deps cfg env ep s n of
           None \<Rightarrow> None
         | Some r \<Rightarrow> Some (bindE r (\<lambda>((is_valid, deps), s'). Inr (is_valid, s')))))"

text \<open>\<^verbatim>\<open>any(out_pad != 0 for out_pad in node.args[7])\<close>: only a list is iterated.\<close>

definition any_neq_zero :: "arg \<Rightarrow> error + bool" where
  "any_neq_zero a = (case a of AList xs \<Rightarrow> Inr (\<exists>x \<in> set xs. neq_zero x)
                      | _ \<Rightarrow> Inl TypeError)"

text \<open>The part of \<^verbatim>\<open>ConvolutionConfig.check_constraints\<close> after the call to the base class.\<close>

definition conv_constraints ::
  "config \<Rightarrow> 'ep env \<Rightarrow> 'ep \<Rightarrow> graph \<Rightarrow> nat \<Rightarrow> error + bool" where
  "conv_constraints cfg env ep g n =
     bindE (subscript (args (g n)) 3) (\<lambda>conv_stride.
     bindE (len_arg conv_stride) (\<lambda>stride_len.
       if stride_len > 2 then Inr False
       else
         bindE (get_input_node g n 1) (\<lambda>kernel_arg.
         bindE (node_of kernel_arg) (\<lambda>kernel_node.
           (let kernel_shape = get_shape env g kernel_node;
                weight_quant_params = from_weights env ep g kernel_node
            in
            bindE (subscript (args (g n)) 8) (\<lambda>groups_arg.
            bindE (subscript (args (g n)) 6) (\<lambda>is_transpose.
            bindE (detect_precision cfg env g n) (\<lambda>precision.
              if precision = DYNAMIC_QUANT
                 \<and> (stride_len \<noteq> 2
                      \<or> is_depthwise_conv env kernel_shape groups_arg is_transpose)
              then Inr False
              else
                bindE (if truthy is_transpose
                       then bindE (subscript (args (g n)) 7) any_neq_zero
                       else Inr False) (\<lambda>output_padding.
                  if output_padding then Inr False
                  else
                    (case weight_quant_params of
                       None \<Rightarrow> Inr True
                     | Some qp \<Rightarrow>
                         if truthy is_transpose \<and> per_channel qp then
                           bindE (int_of_arg groups_arg) (\<lambda>groups.
                             Inr (\<not> (groups > 1 \<or> axis qp \<noteq> 1)))
                         else Inr True))))))))))"

definition ConvolutionConfig_check_constraints ::
  "config \<Rightarrow> 'ep env \<Rightarrow> 'ep \<Rightarrow> state \<Rightarrow> nat \<Rightarrow> (error + (bool \<times> state)) option" where
  "ConvolutionConfig_check_constraints cfg env ep s n =
     (case GEMMConfig_check_constraints cfg env ep s n of
        None \<Rightarrow> None
      | Some r \<Rightarrow>
          Some (bindE r (\<lambda>(ok, s').
            if \<not> ok then Inr (False, s')
            else bindE (conv_constraints cfg env ep (nodes s') n) (\<lambda>b. Inr (b, s')))))"

subsection \<open>Sample graphs\<close>

text \<open>
  One instance of the helper predicates, which classifies a node by its \<^verbatim>\<open>op\<close>
  and the name of its target, and small graphs on which the methods are evaluated.
\<close>

definition sample_env :: "unit env" where
  "sample_env =
     \<lparr>is_dequant = (\<lambda>g n. op (g n) = ''call_function''
          \<and> target (g n) \<in> set [''dequantize_per_tensor.default'',
                ''dequantize_per_tensor.tensor'', ''dequantize_per_channel.default'']),
      is_quant = (\<lambda>g n. op (g n) = ''call_function''
          \<and> target (g n) \<in> set [''quantize_per_tensor.default'',
                ''quantize_per_tensor.tensor'', ''quantize_per_channel.default'']),
      is_dynamic_qdq = (\<lambda>g n. op (g n) = ''call_function''
          \<and> target (g n) \<in> set [''quantize_per_tensor.tensor'',
                ''dequantize_per_tensor.tensor'']),
      is_per_tensor = (\<lambda>g n. target (g n) \<in> set [''quantize_per_tensor.default'',
                ''quantize_per_tensor.tensor'', ''dequantize_per_tensor.default'',
                ''dequantize_per_tensor.tensor'']),
      is_per_channel = (\<lambda>g n. target (g n) \<in> set [''quantize_per_channel.default'',
                ''dequantize_per_channel.default'']),
      is_per_channel_group = (\<lambda>g n. False),
      is_affine_qdq = (\<lambda>g n. False),
      is_qparam = (\<lambda>g n. target (g n) = ''choose_qparams.tensor''),
      is_getitem = (\<lambda>g n. target (g n) = ''getitem''),
      is_param_node = (\<lambda>ep g n. op (g n) = ''get_attr''),
      extract_qdq_affine_op_args_for_decomposed_ops = (\<lambda>g n. args (g n)),
      format_target_name = (\<lambda>name. name),
      get_source_partitions = (\<lambda>g. []),
      check_common_constraints = (\<lambda>ep g n. True),
      get_shape = (\<lambda>g n. []),
      from_weights = (\<lambda>ep g n. None),
      is_depthwise_conv = (\<lambda>shape groups is_transpose. False)\<rparr>"

definition mk_node :: "string \<Rightarrow> string \<Rightarrow> arg list \<Rightarrow> nat list \<Rightarrow> node" where
  "mk_node kind name operands consumers =
     \<lparr>op = kind, target = name, args = operands, users = consumers\<rparr>"

definition no_node :: node where
  "no_node = mk_node ''placeholder'' ''unused'' [] []"

text \<open>
  A linear call decomposed into \<^verbatim>\<open>permute_copy\<close> (node 2) and \<^verbatim>\<open>addmm\<close>
  (node 3), followed by \<^verbatim>\<open>relu\<close>. Node 0 is the activation, node 1 the weight
  and node 4 the bias, both stored parameters.
\<close>

definition addmm_graph :: graph where
  "addmm_graph =
     (\<lambda>i. no_node)
       (0 := mk_node ''placeholder'' ''x'' [] [3],
        1 := mk_node ''get_attr'' ''weight'' [] [2],
        2 := mk_node ''call_function'' ''permute_copy.default''
               [ANode 1, AList [AInt 1, AInt 0]] [3],
        3 := mk_node ''call_function'' ''addmm.default'' [ANode 4, ANode 0, ANode 2] [5],
        4 := mk_node ''get_attr'' ''bias'' [] [3],
        5 := mk_node ''call_function'' ''relu.default'' [ANode 3] [6],
        6 := mk_node ''output'' ''output'' [ANode 5] [])"

definition addmm_partition :: source_partition where
  "addmm_partition = \<lparr>sp_nodes = [2, 3], sp_input_nodes = [0, 1, 4], sp_output_nodes = [3]\<rparr>"

definition addmm_state :: state where
  "addmm_state = \<lparr>nodes = addmm_graph, implicit_q_dq = {},
                   src_partitions = Some [[addmm_partition]]\<rparr>"

text \<open>
  A linear node (10) with a dynamically quantized activation: \<^verbatim>\<open>choose_qparams\<close>
  (1), its two \<^verbatim>\<open>getitem\<close>s (2, 3), \<^verbatim>\<open>quantize\<close> (4), \<^verbatim>\<open>dequantize\<close> (5);
  the weight (6) with scales (7) and zero points (8) behind a per-channel
  \<^verbatim>\<open>dequantize\<close> (9); the bias (11).
\<close>

definition dq_linear_graph :: graph where
  "dq_linear_graph =
     (\<lambda>i. no_node)
       (0 := mk_node ''placeholder'' ''x'' [] [1, 4],
        1 := mk_node ''call_function'' ''choose_qparams.tensor'' [ANode 0] [2, 3],
        2 := mk_node ''call_function'' ''getitem'' [ANode 1, AInt 0] [4, 5],
        3 := mk_node ''call_function'' ''getitem'' [ANode 1, AInt 1] [4, 5],
        4 := mk_node ''call_function'' ''quantize_per_tensor.tensor''
               [ANode 0, ANode 2, ANode 3, AInt (-128), AInt 127] [5],
        5 := mk_node ''call_function'' ''dequantize_per_tensor.tensor''
               [ANode 4, ANode 2, ANode 3, AInt (-128), AInt 127] [10],
        6 := mk_node ''get_attr'' ''weight'' [] [9],
        7 := mk_node ''get_attr'' ''scales'' [] [9],
        8 := mk_node ''get_attr'' ''zero_points'' [] [9],
        9 := mk_node ''call_function'' ''dequantize_per_channel.default''
               [ANode 6, ANode 7, ANode 8, AInt 0, AInt (-127), AInt 127] [10],
        10 := mk_node ''call_function'' ''linear.default'' [ANode 5, ANode 9, ANode 11] [12],
        11 := mk_node ''get_attr'' ''bias'' [] [10],
        12 := mk_node ''output'' ''output'' [ANode 10] [])"

text \<open>The same, with the zero point of \<^verbatim>\<open>quantize\<close> read from a node (13) that is no \<^verbatim>\<open>choose_qparams\<close>.\<close>

definition dq_linear_graph_zp :: graph where
  "dq_linear_graph_zp =
     dq_linear_graph
       (3 := mk_node ''call_function'' ''getitem'' [ANode 13, AInt 1] [4, 5],
        13 := mk_node ''call_function'' ''aminmax.default'' [ANode 0] [3])"

text \<open>The same, with a per-channel \<^verbatim>\<open>dequantize\<close> of the weight that has scales and no zero points.\<close>

definition dq_linear_graph_scale_only :: graph where
  "dq_linear_graph_scale_only =
     dq_linear_graph
       (9 := mk_node ''call_function'' ''dequantize_per_channel.default''
               [ANode 6, ANode 7, ANone, AInt 0, AInt (-127), AInt 127] [10])"

text \<open>The same, with a per-tensor \<^verbatim>\<open>dequantize\<close> of the weight.\<close>

definition dq_linear_graph_per_tensor :: graph where
  "dq_linear_graph_per_tensor =
     dq_linear_graph
       (9 := mk_node ''call_function'' ''dequantize_per_tensor.default''
               [ANode 6, AInt 1, AInt 0, AInt (-127), AInt 127] [10])"

definition all_precisions :: "ConfigPrecisionType list" where
  "all_precisions = [FP32, STATIC_QUANT, DYNAMIC_QUANT]"

text \<open>A convolution (node 3) with a stride list of three entries.\<close>

definition conv3d_graph :: graph where
  "conv3d_graph =
     (\<lambda>i. no_node)
       (0 := mk_node ''placeholder'' ''x'' [] [3],
        1 := mk_node ''get_attr'' ''weight'' [] [3],
        2 := mk_node ''get_attr'' ''bias'' [] [3],
        3 := mk_node ''call_function'' ''convolution.default''
               [ANode 0, ANode 1, ANode 2, AList [AInt 1, AInt 1, AInt 1],
                AList [AInt 0, AInt 0, AInt 0], AList [AInt 1, AInt 1, AInt 1],
                ABool False, AList [AInt 0, AInt 0, AInt 0], AInt 1] [4],
        4 := mk_node ''output'' ''output'' [ANode 3] [])"

definition state_of :: "graph \<Rightarrow> state" where
  "state_of g = \<lparr>nodes = g, implicit_q_dq = {}, src_partitions = None\<rparr>"

section \<open>Properties\<close>

subsection \<open>Auxiliary facts\<close>

lemma bindE_simps [simp]: "bindE (Inl e) f = Inl e" "bindE (Inr x) f = f x"
  by (simp_all add: bindE_def)

lemma bindE_Inr_iff: "bindE m f = Inr y \<longleftrightarrow> (\<exists>x. m = Inr x \<and> f x = Inr y)"
  by (cases m) auto

lemma nodes_tag_deps [simp]: "nodes (tag_deps env s deps) = nodes s"
  unfolding tag_deps_def
  by (induction deps arbitrary: s) (auto simp: tag_as_implicit_q_dq_def)

lemma src_partitions_tag_deps [simp]: "src_partitions (tag_deps env s deps) = src_partitions s"
  unfolding tag_deps_def
  by (induction deps arbitrary: s) (auto simp: tag_as_implicit_q_dq_def)

lemma implicit_tag_deps:
  "implicit_q_dq (tag_deps env s deps) =
     implicit_q_dq s \<union> {d \<in> set deps. is_dequant env (nodes s) d \<or> is_quant env (nodes s) d}"
  unfolding tag_deps_def
  by (induction deps arbitrary: s) (auto simp: tag_as_implicit_q_dq_def)

lemma tag_deps_Nil [simp]: "tag_deps env s [] = s"
  by (simp add: tag_deps_def)

lemma GEMMConfig_get_deps_state:
  "GEMMConfig_get_deps cfg env ep s n = Inr ((v, deps), s') \<Longrightarrow> s' = tag_deps env s deps"
  unfolding GEMMConfig_get_deps_def
  by (auto simp: bindE_def Let_def simp del: supported_precision_types.simps
        split: sum.splits if_splits prod.splits)

lemma GEMMConfig_get_deps_cong:
  "nodes t = nodes s \<Longrightarrow> GEMMConfig_get_deps cfg env ep s n = Inr ((v, deps), s')
     \<Longrightarrow> GEMMConfig_get_deps cfg env ep t n = Inr ((v, deps), tag_deps env t deps)"
  unfolding GEMMConfig_get_deps_def
  by (auto simp: bindE_def Let_def simp del: supported_precision_types.simps
        split: sum.splits if_splits prod.splits)

lemma nodes_set_args [simp]:
  "nodes (set_args s n a) = (nodes s)(n := (nodes s n)\<lparr>args := a\<rparr>)"
  by (simp add: set_args_def)

lemma nodes_set_users [simp]:
  "nodes (set_users s n u) = (nodes s)(n := (nodes s n)\<lparr>users := u\<rparr>)"
  by (simp add: set_users_def)

lemma src_partitions_set_args [simp]: "src_partitions (set_args s n a) = src_partitions s"
  by (simp add: set_args_def)

lemma src_partitions_set_users [simp]: "src_partitions (set_users s n u) = src_partitions s"
  by (simp add: set_users_def)

lemma restore_node:
  assumes "nodes s3 = nodes (set_users (set_args s n a) n u)"
  shows "nodes (set_users (set_args s3 n (args (nodes s n))) n (users (nodes s n))) = nodes s"
  using assms by (auto simp: fun_eq_iff)

lemma get_deps_from_src_partition_frame:
  assumes "get_deps_from_src_partition cfg env ep s n sp = Some (Inr (r, s'))"
  shows "nodes s' = nodes s \<and> src_partitions s' = src_partitions s"
proof -
  obtain fake_args where fa: "build_fake_args (nodes s) sp (args (nodes s n)) = Some (Inr fake_args)"
    using assms unfolding get_deps_from_src_partition_def
    by (auto simp: Let_def split: option.splits sum.splits)
  obtain invalid where inv: "invalid_source_partition cfg sp fake_args = Inr invalid"
    using assms fa unfolding get_deps_from_src_partition_def
    by (cases "invalid_source_partition cfg sp fake_args") (auto simp: Let_def)
  show ?thesis
  proof (cases invalid)
    case True
    with assms fa inv show ?thesis
      unfolding get_deps_from_src_partition_def by (auto simp: Let_def)
  next
    case False
    define s2 where
      "s2 = set_users (set_args s n (map ANode fake_args)) n
              (users (nodes (set_args s n (map ANode fake_args)) (sp_output_nodes sp ! 0)))"
    from assms fa inv False obtain valid deps s3 where
      inner: "GEMMConfig_get_deps cfg env ep s2 n = Inr ((valid, deps), s3)"
      and s': "s' = set_users (set_args s3 n (args (nodes s n))) n (users (nodes s n))"
      unfolding get_deps_from_src_partition_def s2_def
      by (auto simp: Let_def bindE_Inr_iff split: prod.splits)
    from GEMMConfig_get_deps_state [OF inner] have s3: "s3 = tag_deps env s2 deps" .
    then have "nodes s3 = nodes s2" "src_partitions s3 = src_partitions s2" by simp_all
    then show ?thesis
      unfolding s' using restore_node [of s3 s n] by (simp add: s2_def)
  qed
qed

subsection \<open>The restoration of the node\<close>

text \<open>
  Claim C1. Whenever \<^verbatim>\<open>AddmmConfig.get_deps_from_src_partition\<close> returns, on the
  early return of a rejected partition as on a valid or an invalid result of the
  inner \<^verbatim>\<open>GEMMConfig.get_deps\<close>, the argument list and the users of the node are
  what they were before the call; no other node of the store has changed either.
\<close>

theorem src_partition_restores_args_users:
  assumes "get_deps_from_src_partition cfg env ep s n sp = Some (Inr (r, s'))"
  shows "args (nodes s' n) = args (nodes s n) \<and> users (nodes s' n) = users (nodes s n)
           \<and> nodes s' = nodes s"
  using get_deps_from_src_partition_frame [OF assms] by simp

text \<open>A result known up to its state is a result with some state.\<close>

lemma Some_Inr_fstE:
  assumes "map_option (map_sum id fst) m = Some (Inr r)"
  obtains s' where "m = Some (Inr (r, s'))"
  using assms by (cases m; cases "the m") (auto simp: map_sum_def split: sum.splits)

theorem src_partition_restores_args_users_witness:
  "\<exists>s'. get_deps_from_src_partition (AddmmConfig all_precisions False) sample_env ()
           addmm_state 3 addmm_partition = Some (Inr ((True, [4, 1, 5, 2, 3]), s'))
        \<and> args (nodes s' 3) = [ANode 4, ANode 0, ANode 2] \<and> users (nodes s' 3) = [5]"
proof -
  have "map_option (map_sum id fst)
          (get_deps_from_src_partition (AddmmConfig all_precisions False) sample_env ()
             addmm_state 3 addmm_partition) = Some (Inr (True, [4, 1, 5, 2, 3]))"
    by code_simp
  then obtain s' where e: "get_deps_from_src_partition (AddmmConfig all_precisions False)
      sample_env () addmm_state 3 addmm_partition = Some (Inr ((True, [4, 1, 5, 2, 3]), s'))"
    by (rule Some_Inr_fstE)
  have a: "args (nodes addmm_state 3) = [ANode 4, ANode 0, ANode 2]" by code_simp
  have u: "users (nodes addmm_state 3) = [5]" by code_simp
  from src_partition_restores_args_users [OF e] a u e show ?thesis by simp
qed

subsection \<open>Tagging of quantize and dequantize nodes\<close>

text \<open>
  Claim C10. Whenever \<^verbatim>\<open>GEMMConfig.get_deps\<close> returns, with validity true or
  false, every node of the returned dependency list that is a dequantize or a
  quantize node is tagged as an implicit q/dq node, and the node store is unchanged.
\<close>

theorem get_deps_tags_q_dq:
  assumes "GEMMConfig_get_deps cfg env ep s n = Inr ((valid, deps), s')"
  shows "nodes s' = nodes s
         \<and> (\<forall>d \<in> set deps. is_dequant env (nodes s) d \<or> is_quant env (nodes s) d
                \<longrightarrow> d \<in> implicit_q_dq s')"
  using GEMMConfig_get_deps_state [OF assms] by (auto simp: implicit_tag_deps)

lemma Inr_fstE:
  assumes "map_sum id fst m = Inr r"
  obtains s' where "m = Inr (r, s')"
  using assms by (cases m) auto

theorem get_deps_tags_q_dq_witness:
  "\<exists>s'. GEMMConfig_get_deps (LinearConfig all_precisions False) sample_env ()
           (state_of dq_linear_graph_per_tensor) 10 = Inr ((False, [11, 5, 4, 2, 3, 1]), s')
        \<and> is_dequant sample_env dq_linear_graph_per_tensor 5 \<and> 5 \<in> implicit_q_dq s'
        \<and> is_quant sample_env dq_linear_graph_per_tensor 4 \<and> 4 \<in> implicit_q_dq s'"
proof -
  have "map_sum id fst (GEMMConfig_get_deps (LinearConfig all_precisions False) sample_env ()
          (state_of dq_linear_graph_per_tensor) 10) = Inr (False, [11, 5, 4, 2, 3, 1])"
    by code_simp
  then obtain s' where e: "GEMMConfig_get_deps (LinearConfig all_precisions False) sample_env ()
      (state_of dq_linear_graph_per_tensor) 10 = Inr ((False, [11, 5, 4, 2, 3, 1]), s')"
    by (rule Inr_fstE)
  have g: "nodes (state_of dq_linear_graph_per_tensor) = dq_linear_graph_per_tensor"
    by (simp add: state_of_def)
  have d: "is_dequant sample_env dq_linear_graph_per_tensor 5" by code_simp
  have q: "is_quant sample_env dq_linear_graph_per_tensor 4" by code_simp
  from get_deps_tags_q_dq [OF e] d q e show ?thesis by (simp add: g)
qed

subsection \<open>The cluster of a node\<close>

text \<open>
  Claim C9. \<^verbatim>\<open>get_node_and_deps\<close> returns the candidate node followed by the
  dependency nodes of \<^verbatim>\<open>get_deps\<close>, whatever the validity flag is. On the sample
  linear node with a per-tensor weight under dynamic quantization the resolution is
  invalid, and the cluster still holds the bias and the five nodes of the
  activation chain.
\<close>

theorem get_node_and_deps_ignores_validity:
  "(get_deps cfg env ep s n = Some (Inr ((valid, deps), s'))
      \<longrightarrow> get_node_and_deps cfg env ep s n = Some (Inr (n # deps, s')))
   \<and> (\<exists>t. get_deps (LinearConfig all_precisions False) sample_env ()
              (state_of dq_linear_graph_per_tensor) 10
            = Some (Inr ((False, [11, 5, 4, 2, 3, 1]), t))
          \<and> get_node_and_deps (LinearConfig all_precisions False) sample_env ()
              (state_of dq_linear_graph_per_tensor) 10
            = Some (Inr ([10, 11, 5, 4, 2, 3, 1], t)))"
proof -
  have "map_option (map_sum id fst) (get_deps (LinearConfig all_precisions False) sample_env ()
          (state_of dq_linear_graph_per_tensor) 10) = Some (Inr (False, [11, 5, 4, 2, 3, 1]))"
    by code_simp
  then obtain t where "get_deps (LinearConfig all_precisions False) sample_env ()
      (state_of dq_linear_graph_per_tensor) 10 = Some (Inr ((False, [11, 5, 4, 2, 3, 1]), t))"
    by (rule Some_Inr_fstE)
  then show ?thesis by (auto simp: get_node_and_deps_def)
qed

theorem get_node_and_deps_ignores_validity_witness:
  "\<exists>s'. get_deps (AddmmConfig all_precisions False) sample_env () addmm_state 3
           = Some (Inr ((True, [4, 1, 5, 2, 3]), s'))
        \<and> get_node_and_deps (AddmmConfig all_precisions False) sample_env () addmm_state 3
           = Some (Inr ([3, 4, 1, 5, 2, 3], s'))"
proof -
  have "map_option (map_sum id fst) (get_deps (AddmmConfig all_precisions False) sample_env ()
          addmm_state 3) = Some (Inr (True, [4, 1, 5, 2, 3]))"
    by code_simp
  then obtain s' where e: "get_deps (AddmmConfig all_precisions False) sample_env ()
      addmm_state 3 = Some (Inr ((True, [4, 1, 5, 2, 3]), s'))"
    by (rule Some_Inr_fstE)
  from get_node_and_deps_ignores_validity [of "AddmmConfig all_precisions False" sample_env
      "()" addmm_state 3 True "[4, 1, 5, 2, 3]" s'] e
  show ?thesis by blast
qed

subsection \<open>Per-tensor weights under dynamic quantization\<close>

text \<open>
  Claim C5. When the precision resolved for a node is \<^verbatim>\<open>DYNAMIC_QUANT\<close> and its
  weight operand is a per-tensor dequantize node over a static parameter,
  \<^verbatim>\<open>_get_weight_deps\<close> of every class returns validity false and no nodes.
\<close>

theorem per_tensor_weight_dynamic_rejected:
  assumes "overwrite_precision cfg env g n = Inr (overwritten, DYNAMIC_QUANT)"
    and "get_input_node g n (weight_idx cfg) = Inr (ANode dq)"
    and "is_dequant env g dq"
    and "is_per_tensor env g dq"
    and "get_input_node g dq 0 = Inr (ANode w)"
    and "is_param_node env ep g w"
  shows "get_weight_deps cfg env ep g n DYNAMIC_QUANT = Inr (False, [])"
proof -
  have base: "GEMMConfig_get_weight_deps cfg env ep g n DYNAMIC_QUANT = Inr (False, [])"
    using assms(2-6) by (simp add: GEMMConfig_get_weight_deps_def node_of_def)
  show ?thesis
    using assms(1) base by (cases "family cfg") (simp_all add: get_weight_deps_def)
qed

theorem per_tensor_weight_dynamic_rejected_witness:
  "overwrite_precision (LinearConfig all_precisions False) sample_env
     dq_linear_graph_per_tensor 10 = Inr (False, DYNAMIC_QUANT)
   \<and> get_input_node dq_linear_graph_per_tensor 10 1 = Inr (ANode 9)
   \<and> is_dequant sample_env dq_linear_graph_per_tensor 9
   \<and> is_per_tensor sample_env dq_linear_graph_per_tensor 9
   \<and> get_input_node dq_linear_graph_per_tensor 9 0 = Inr (ANode 6)
   \<and> is_param_node sample_env () dq_linear_graph_per_tensor 6
   \<and> get_weight_deps (LinearConfig all_precisions False) sample_env ()
        dq_linear_graph_per_tensor 10 DYNAMIC_QUANT = Inr (False, [])"
proof -
  let ?cfg = "LinearConfig all_precisions False"
  let ?g = dq_linear_graph_per_tensor
  have h1: "overwrite_precision ?cfg sample_env ?g 10 = Inr (False, DYNAMIC_QUANT)"
    by code_simp
  have w: "weight_idx ?cfg = 1" by (simp add: LinearConfig_def)
  have h2: "get_input_node ?g 10 (weight_idx ?cfg) = Inr (ANode 9)"
    unfolding w by code_simp
  have h3: "is_dequant sample_env ?g 9" by code_simp
  have h4: "is_per_tensor sample_env ?g 9" by code_simp
  have h5: "get_input_node ?g 9 0 = Inr (ANode 6)" by code_simp
  have h6: "is_param_node sample_env () ?g 6" by code_simp
  from per_tensor_weight_dynamic_rejected [OF h1 h2 h3 h4 h5 h6] h1 h2 h3 h4 h5 h6
  show ?thesis by (simp add: w)
qed

subsection \<open>Convolutions with more than two strides\<close>

lemma get_deps_nodes:
  assumes "get_deps cfg env ep s n = Some (Inr (r, s'))"
  shows "nodes s' = nodes s"
proof -
  have gemm: "nodes s' = nodes t"
    if "GEMMConfig_get_deps cfg env ep t n = Inr (r, s')" for t
    using GEMMConfig_get_deps_state [of cfg env ep t n "fst r" "snd r" s'] that by simp
  have addmm: "nodes s' = nodes s"
    if a: "AddmmConfig_get_deps cfg env ep s n = Some (Inr (r, s'))"
  proof -
    define s1 where "s1 = (case src_partitions s of
        None \<Rightarrow> s\<lparr>src_partitions := Some (get_source_partitions env (nodes s))\<rparr>
      | Some cached \<Rightarrow> s)"
    have n1: "nodes s1 = nodes s" by (simp add: s1_def split: option.splits)
    show ?thesis
    proof (cases "find_src_partition (case src_partitions s1 of None \<Rightarrow> [] | Some c \<Rightarrow> c) n")
      case None
      with a have "GEMMConfig_get_deps cfg env ep s1 n = Inr (r, s')"
        by (simp add: AddmmConfig_get_deps_def s1_def [symmetric])
      from gemm [OF this] n1 show ?thesis by simp
    next
      case (Some sp)
      with a have "get_deps_from_src_partition cfg env ep s1 n sp = Some (Inr (r, s'))"
        by (simp add: AddmmConfig_get_deps_def s1_def [symmetric])
      from get_deps_from_src_partition_frame [OF this] n1 show ?thesis by simp
    qed
  qed
  from assms gemm addmm show ?thesis
    by (cases "family cfg") (simp_all add: get_deps_def)
qed

text \<open>
  Claim C6. On a convolution node whose stride list (argument 3) has more than two
  entries, \<^verbatim>\<open>ConvolutionConfig.check_constraints\<close> returns false whenever the
  check of the base class returns, whether that check accepts the dependencies or
  not.
\<close>

theorem conv_stride_over_two_rejected:
  assumes "GEMMConfig_check_constraints cfg env ep s n = Some (Inr (ok, s'))"
    and "subscript (args (nodes s n)) 3 = Inr (AList conv_stride)"
    and "length conv_stride > 2"
  shows "ConvolutionConfig_check_constraints cfg env ep s n = Some (Inr (False, s'))"
proof -
  have n: "nodes s' = nodes s"
  proof (cases "check_common_constraints env ep (nodes s) n")
    case False
    with assms(1) show ?thesis by (simp add: GEMMConfig_check_constraints_def)
  next
    case True
    with assms(1) obtain r where "get_deps cfg env ep s n = Some (Inr (r, s'))"
      by (auto simp: GEMMConfig_check_constraints_def bindE_Inr_iff
            split: option.splits prod.splits)
    then show ?thesis by (rule get_deps_nodes)
  qed
  have "conv_constraints cfg env ep (nodes s') n = Inr False"
    using assms(2,3) by (simp add: conv_constraints_def n len_arg_def)
  with assms(1) show ?thesis
    by (simp add: ConvolutionConfig_check_constraints_def)
qed

theorem conv_stride_over_two_rejected_witness:
  "\<exists>s'. GEMMConfig_check_constraints (ConvolutionConfig all_precisions False) sample_env ()
            (state_of conv3d_graph) 3 = Some (Inr (True, s'))
        \<and> subscript (args (nodes (state_of conv3d_graph) 3)) 3
            = Inr (AList [AInt 1, AInt 1, AInt 1])
        \<and> ConvolutionConfig_check_constraints (ConvolutionConfig all_precisions False)
            sample_env () (state_of conv3d_graph) 3 = Some (Inr (False, s'))"
proof -
  have "map_option (map_sum id fst) (GEMMConfig_check_constraints
          (ConvolutionConfig all_precisions False) sample_env () (state_of conv3d_graph) 3)
        = Some (Inr True)"
    by code_simp
  then obtain s' where e: "GEMMConfig_check_constraints (ConvolutionConfig all_precisions False)
      sample_env () (state_of conv3d_graph) 3 = Some (Inr (True, s'))"
    by (rule Some_Inr_fstE)
  have a: "subscript (args (nodes (state_of conv3d_graph) 3)) 3
             = Inr (AList [AInt 1, AInt 1, AInt 1])"
    by code_simp
  from conv_stride_over_two_rejected [OF e a] e a show ?thesis by simp
qed

subsection \<open>Intersection against union\<close>

lemma set_list_set_inter [simp]: "set (list_set_inter xs ys) = set xs \<inter> set ys"
  by (auto simp: list_set_inter_def)

lemma set_list_set_union [simp]: "set (list_set_union xs ys) = set xs \<union> set ys"
  by (auto simp: list_set_union_def)

lemma invalid_source_partition_force [simp]:
  "invalid_source_partition (cfg\<lparr>force_non_static_weights_for_f32_linear := b\<rparr>) sp fake_args
     = invalid_source_partition cfg sp fake_args"
  by (simp add: invalid_source_partition_def cong: if_cong option.case_cong)

text \<open>The two shapes of a result of \<^verbatim>\<open>get_deps_from_src_partition\<close>.\<close>

lemma get_deps_from_src_partition_cases:
  assumes "get_deps_from_src_partition cfg env ep s n sp = Some (Inr ((v, d), s'))"
  obtains fake_args where
      "build_fake_args (nodes s) sp (args (nodes s n)) = Some (Inr fake_args)"
      "invalid_source_partition cfg sp fake_args = Inr True" "d = []" "\<not> v" "s' = s"
  | fake_args deps s3 where
      "build_fake_args (nodes s) sp (args (nodes s n)) = Some (Inr fake_args)"
      "invalid_source_partition cfg sp fake_args = Inr False"
      "GEMMConfig_get_deps cfg env ep
         (set_users (set_args s n (map ANode fake_args)) n
            (users (nodes (set_args s n (map ANode fake_args)) (sp_output_nodes sp ! 0)))) n
       = Inr ((v, deps), s3)"
      "d = (if force_non_static_weights_for_f32_linear cfg
            then list_set_inter deps (sp_nodes sp) else list_set_union deps (sp_nodes sp))"
      "s' = set_users (set_args s3 n (args (nodes s n))) n (users (nodes s n))"
proof -
  obtain fake_args where fa: "build_fake_args (nodes s) sp (args (nodes s n)) = Some (Inr fake_args)"
    using assms unfolding get_deps_from_src_partition_def
    by (auto simp: Let_def split: option.splits sum.splits)
  obtain invalid where inv: "invalid_source_partition cfg sp fake_args = Inr invalid"
    using assms fa unfolding get_deps_from_src_partition_def
    by (cases "invalid_source_partition cfg sp fake_args") (auto simp: Let_def)
  show thesis
  proof (cases invalid)
    case True
    with assms fa inv have r: "d = []" "\<not> v" "s' = s"
      unfolding get_deps_from_src_partition_def by (auto simp: Let_def)
    from inv True have i: "invalid_source_partition cfg sp fake_args = Inr True"
      by simp
    show thesis by (rule that(1) [OF fa i r])
  next
    case False
    with assms fa inv obtain deps s3 where r:
      "GEMMConfig_get_deps cfg env ep
         (set_users (set_args s n (map ANode fake_args)) n
            (users (nodes (set_args s n (map ANode fake_args)) (sp_output_nodes sp ! 0)))) n
       = Inr ((v, deps), s3)"
      "d = (if force_non_static_weights_for_f32_linear cfg
            then list_set_inter deps (sp_nodes sp) else list_set_union deps (sp_nodes sp))"
      "s' = set_users (set_args s3 n (args (nodes s n))) n (users (nodes s n))"
      unfolding get_deps_from_src_partition_def
      by (auto simp: Let_def bindE_Inr_iff split: prod.splits)
    from inv False have i: "invalid_source_partition cfg sp fake_args = Inr False"
      by simp
    show thesis by (rule that(2) [OF fa i r])
  qed
qed

text \<open>
  Claim C7. For the same state, node and source partition, the nodes returned by
  \<^verbatim>\<open>get_deps_from_src_partition\<close> with
  \<^verbatim>\<open>force_non_static_weights_for_f32_linear\<close> set are among the nodes returned
  with the flag unset.
\<close>

theorem force_non_static_deps_subset:
  assumes "get_deps_from_src_partition
             (cfg\<lparr>force_non_static_weights_for_f32_linear := True\<rparr>) env ep s n sp
           = Some (Inr ((v1, d1), s1))"
    and "get_deps_from_src_partition
             (cfg\<lparr>force_non_static_weights_for_f32_linear := False\<rparr>) env ep s n sp
           = Some (Inr ((v2, d2), s2))"
  shows "set d1 \<subseteq> set d2"
proof -
  let ?on = "cfg\<lparr>force_non_static_weights_for_f32_linear := True\<rparr>"
  let ?off = "cfg\<lparr>force_non_static_weights_for_f32_linear := False\<rparr>"
  from assms(1) have d1: "set d1 \<subseteq> set (sp_nodes sp)"
  proof (cases rule: get_deps_from_src_partition_cases)
    case (1 fake_args)
    then show ?thesis by simp
  next
    case (2 fake_args deps s3)
    then show ?thesis by simp
  qed
  from assms(2) show ?thesis
  proof (cases rule: get_deps_from_src_partition_cases)
    case off: (1 fake_args)
    from assms(1) show ?thesis
    proof (cases rule: get_deps_from_src_partition_cases)
      case (1 fake_args')
      then show ?thesis by simp
    next
      case (2 fake_args' deps s3)
      with off(1,2) show ?thesis by simp
    qed
  next
    case (2 fake_args deps s3)
    then have "set (sp_nodes sp) \<subseteq> set d2" by simp
    with d1 show ?thesis by blast
  qed
qed

theorem force_non_static_deps_subset_witness:
  "\<exists>s1 s2. get_deps_from_src_partition (AddmmConfig all_precisions True) sample_env ()
              addmm_state 3 addmm_partition = Some (Inr ((True, []), s1))
          \<and> get_deps_from_src_partition (AddmmConfig all_precisions False) sample_env ()
              addmm_state 3 addmm_partition = Some (Inr ((True, [4, 1, 5, 2, 3]), s2))
          \<and> set ([] :: nat list) \<subseteq> set [4, 1, 5, 2, 3]"
proof -
  let ?cfg = "AddmmConfig all_precisions False"
  have on: "?cfg\<lparr>force_non_static_weights_for_f32_linear := True\<rparr>
              = AddmmConfig all_precisions True"
    and off: "?cfg\<lparr>force_non_static_weights_for_f32_linear := False\<rparr>
              = AddmmConfig all_precisions False"
    by (simp_all add: AddmmConfig_def)
  have "map_option (map_sum id fst) (get_deps_from_src_partition
          (AddmmConfig all_precisions True) sample_env () addmm_state 3 addmm_partition)
        = Some (Inr (True, []))"
    by code_simp
  then obtain s1 where e1: "get_deps_from_src_partition (AddmmConfig all_precisions True)
      sample_env () addmm_state 3 addmm_partition = Some (Inr ((True, []), s1))"
    by (rule Some_Inr_fstE)
  have "map_option (map_sum id fst) (get_deps_from_src_partition
          (AddmmConfig all_precisions False) sample_env () addmm_state 3 addmm_partition)
        = Some (Inr (True, [4, 1, 5, 2, 3]))"
    by code_simp
  then obtain s2 where e2: "get_deps_from_src_partition (AddmmConfig all_precisions False)
      sample_env () addmm_state 3 addmm_partition = Some (Inr ((True, [4, 1, 5, 2, 3]), s2))"
    by (rule Some_Inr_fstE)
  from force_non_static_deps_subset [of ?cfg sample_env "()" addmm_state 3 addmm_partition
      True "[]" s1 True "[4, 1, 5, 2, 3]" s2] e1 e2
  show ?thesis unfolding on off by blast
qed

subsection \<open>Repeated calls\<close>

text \<open>The result of \<^verbatim>\<open>get_deps_from_src_partition\<close> depends on the node store only.\<close>

lemma get_deps_from_src_partition_cong:
  assumes n: "nodes t = nodes s"
    and r: "get_deps_from_src_partition cfg env ep s n sp = Some (Inr ((v, d), s'))"
  shows "\<exists>t'. get_deps_from_src_partition cfg env ep t n sp = Some (Inr ((v, d), t'))"
  using r
proof (cases rule: get_deps_from_src_partition_cases)
  case (1 fake_args)
  then show ?thesis
    by (simp add: get_deps_from_src_partition_def n)
next
  case (2 fake_args deps s3)
  let ?s2 = "set_users (set_args s n (map ANode fake_args)) n
               (users (nodes (set_args s n (map ANode fake_args)) (sp_output_nodes sp ! 0)))"
  let ?t2 = "set_users (set_args t n (map ANode fake_args)) n
               (users (nodes (set_args t n (map ANode fake_args)) (sp_output_nodes sp ! 0)))"
  have "nodes ?t2 = nodes ?s2" by (simp add: n)
  from GEMMConfig_get_deps_cong [OF this 2(3)]
  have "GEMMConfig_get_deps cfg env ep ?t2 n = Inr ((v, deps), tag_deps env ?t2 deps)" .
  with 2(1,2,4) show ?thesis
    by (simp add: get_deps_from_src_partition_def n Let_def)
qed

lemma get_deps_src_partitions:
  assumes "get_deps cfg env ep s n = Some (Inr (r, s'))"
    and "src_partitions s = Some parts"
  shows "src_partitions s' = Some parts"
proof -
  have gemm: "src_partitions s' = src_partitions t"
    if "GEMMConfig_get_deps cfg env ep t n = Inr (r, s')" for t
    using GEMMConfig_get_deps_state [of cfg env ep t n "fst r" "snd r" s'] that by simp
  have addmm: "src_partitions s' = Some parts"
    if a: "AddmmConfig_get_deps cfg env ep s n = Some (Inr (r, s'))"
  proof (cases "find_src_partition parts n")
    case None
    with a assms(2) have "GEMMConfig_get_deps cfg env ep s n = Inr (r, s')"
      by (simp add: AddmmConfig_get_deps_def)
    from gemm [OF this] assms(2) show ?thesis by simp
  next
    case (Some sp)
    with a assms(2) have "get_deps_from_src_partition cfg env ep s n sp = Some (Inr (r, s'))"
      by (simp add: AddmmConfig_get_deps_def)
    from get_deps_from_src_partition_frame [OF this] assms(2) show ?thesis by simp
  qed
  from assms gemm addmm show ?thesis
    by (cases "family cfg") (simp_all add: get_deps_def)
qed

text \<open>A call of \<^verbatim>\<open>get_deps\<close> on a state whose cache is filled, repeated on a state with the same store and cache.\<close>

lemma get_deps_cong:
  assumes "get_deps cfg env ep s n = Some (Inr ((v, d), s'))"
    and "nodes t = nodes s"
    and "src_partitions s = Some parts" and "src_partitions t = Some parts"
  shows "\<exists>t'. get_deps cfg env ep t n = Some (Inr ((v, d), t'))"
proof -
  have gemm: "\<exists>t'. GEMMConfig_get_deps cfg env ep t n = Inr ((v, d), t')"
    if "GEMMConfig_get_deps cfg env ep s n = Inr ((v, d), s')"
    using GEMMConfig_get_deps_cong [OF assms(2) that] by blast
  have addmm: "\<exists>t'. AddmmConfig_get_deps cfg env ep t n = Some (Inr ((v, d), t'))"
    if a: "AddmmConfig_get_deps cfg env ep s n = Some (Inr ((v, d), s'))"
  proof (cases "find_src_partition parts n")
    case None
    with a assms(3) have "GEMMConfig_get_deps cfg env ep s n = Inr ((v, d), s')"
      by (simp add: AddmmConfig_get_deps_def)
    from gemm [OF this] None assms(4) show ?thesis
      by (simp add: AddmmConfig_get_deps_def)
  next
    case (Some sp)
    with a assms(3) have "get_deps_from_src_partition cfg env ep s n sp
        = Some (Inr ((v, d), s'))"
      by (simp add: AddmmConfig_get_deps_def)
    from get_deps_from_src_partition_cong [OF assms(2) this] Some assms(4) show ?thesis
      by (simp add: AddmmConfig_get_deps_def)
  qed
  from assms(1) gemm addmm show ?thesis
    by (cases "family cfg") (simp_all add: get_deps_def)
qed

text \<open>
  Claim C8. When \<^verbatim>\<open>get_node_and_deps\<close> has returned for a node, a second call
  on the state the first one left, with the same graph and node, returns as well,
  and returns the same set of nodes.
\<close>

theorem get_node_and_deps_repeatable:
  assumes "get_node_and_deps cfg env ep s n = Some (Inr (r1, s1))"
  shows "\<exists>r2 s2. get_node_and_deps cfg env ep s1 n = Some (Inr (r2, s2)) \<and> set r2 = set r1"
proof -
  from assms obtain v d where gd: "get_deps cfg env ep s n = Some (Inr ((v, d), s1))"
    and r1: "r1 = n # d"
    by (auto simp: get_node_and_deps_def bindE_Inr_iff split: option.splits prod.splits)
  have n1: "nodes s1 = nodes s" using gd by (rule get_deps_nodes)
  have again: "\<exists>t'. get_deps cfg env ep s1 n = Some (Inr ((v, d), t'))"
  proof (cases "family cfg = Addmm \<or> family cfg = MM")
    case False
    with gd have "GEMMConfig_get_deps cfg env ep s n = Inr ((v, d), s1)"
      by (cases "family cfg") (simp_all add: get_deps_def)
    from GEMMConfig_get_deps_cong [OF n1 this] False show ?thesis
      by (cases "family cfg") (simp_all add: get_deps_def)
  next
    case True
    define sc where "sc = (case src_partitions s of
        None \<Rightarrow> s\<lparr>src_partitions := Some (get_source_partitions env (nodes s))\<rparr>
      | Some cached \<Rightarrow> s)"
    obtain parts where p: "src_partitions sc = Some parts"
      by (cases "src_partitions s") (simp_all add: sc_def)
    have nc: "nodes sc = nodes s"
      by (cases "src_partitions s") (simp_all add: sc_def)
    have "AddmmConfig_get_deps cfg env ep sc n = AddmmConfig_get_deps cfg env ep s n"
      by (cases "src_partitions s") (simp_all add: sc_def AddmmConfig_get_deps_def)
    with gd True have gc: "get_deps cfg env ep sc n = Some (Inr ((v, d), s1))"
      by (auto simp: get_deps_def)
    from get_deps_src_partitions [OF gc p] have p1: "src_partitions s1 = Some parts" .
    from n1 nc have "nodes s1 = nodes sc" by simp
    from get_deps_cong [OF gc this p p1] show ?thesis .
  qed
  then obtain t' where "get_deps cfg env ep s1 n = Some (Inr ((v, d), t'))" ..
  then have "get_node_and_deps cfg env ep s1 n = Some (Inr (n # d, t'))"
    by (simp add: get_node_and_deps_def)
  with r1 show ?thesis by simp
qed

theorem get_node_and_deps_repeatable_witness:
  "\<exists>s1 r2 s2. get_node_and_deps (AddmmConfig all_precisions False) sample_env ()
                  addmm_state 3 = Some (Inr ([3, 4, 1, 5, 2, 3], s1))
             \<and> get_node_and_deps (AddmmConfig all_precisions False) sample_env () s1 3
                  = Some (Inr (r2, s2))
             \<and> set r2 = {1, 2, 3, 4, 5}"
proof -
  have "map_option (map_sum id fst) (get_node_and_deps (AddmmConfig all_precisions False)
          sample_env () addmm_state 3) = Some (Inr [3, 4, 1, 5, 2, 3])"
    by code_simp
  then obtain s1 where e: "get_node_and_deps (AddmmConfig all_precisions False) sample_env ()
      addmm_state 3 = Some (Inr ([3, 4, 1, 5, 2, 3], s1))"
    by (rule Some_Inr_fstE)
  from get_node_and_deps_repeatable [OF e] obtain r2 s2 where
    "get_node_and_deps (AddmmConfig all_precisions False) sample_env () s1 3
       = Some (Inr (r2, s2))" "set r2 = set [3, 4, 1, 5, 2, 3]"
    by blast
  moreover have "set [3, 4, 1, 5, 2, 3] = {1, 2, 3, 4, 5 :: nat}" by auto
  ultimately show ?thesis using e by auto
qed

subsection \<open>Scale and zero point of a channel-wise weight\<close>

text \<open>
  Claim C3 as stated fails: a per-channel dequantize node with one operand beyond
  the weight (scales, no zero points) is accepted, and the closure has no zero
  point.
\<close>

theorem channel_weight_one_extra_operand_accepted:
  "is_per_channel sample_env dq_linear_graph_scale_only 9
   \<and> all_input_nodes dq_linear_graph_scale_only 9 = [6, 7]
   \<and> GEMMConfig_get_weight_deps (LinearConfig all_precisions False) sample_env ()
        dq_linear_graph_scale_only 10 DYNAMIC_QUANT = Inr (True, [9, 6, 7])"
  by code_simp

text \<open>
  Claim C3, amended. For a quantized precision and a weight operand that is a
  per-channel or per-channel-group dequantize node over a static parameter,
  \<^verbatim>\<open>GEMMConfig._get_weight_deps\<close> fails, with no nodes, when the dequantize node
  has fewer than two input nodes, the weight included; when it succeeds, the
  closure is the dequantize node, the weight parameter, the second input node and,
  if there is one, the third.
\<close>

theorem channel_weight_scale_zero_point:
  assumes "precision \<noteq> FP32"
    and "get_input_node g n (weight_idx cfg) = Inr (ANode dq)"
    and "is_dequant env g dq"
    and "get_input_node g dq 0 = Inr (ANode w)"
    and "is_param_node env ep g w"
    and "is_per_channel env g dq \<or> is_per_channel_group env g dq"
  shows "(length (all_input_nodes g dq) < 2
            \<longrightarrow> GEMMConfig_get_weight_deps cfg env ep g n precision = Inr (False, []))
       \<and> (\<forall>deps. GEMMConfig_get_weight_deps cfg env ep g n precision = Inr (True, deps)
            \<longrightarrow> 2 \<le> length (all_input_nodes g dq)
                \<and> deps = [dq, w] @ take 2 (drop 1 (all_input_nodes g dq))
                \<and> all_input_nodes g dq ! 1 \<in> set deps
                \<and> (3 \<le> length (all_input_nodes g dq)
                      \<longrightarrow> all_input_nodes g dq ! 2 \<in> set deps))"
proof -
  let ?ins = "all_input_nodes g dq"
  have res: "GEMMConfig_get_weight_deps cfg env ep g n precision =
      (if is_per_tensor env g dq \<and> precision = DYNAMIC_QUANT then Inr (False, [])
       else if length ?ins < 2 then Inr (False, [])
       else Inr (True, [dq, w] @ take 2 (drop 1 ?ins)))"
    using assms by (simp add: GEMMConfig_get_weight_deps_def node_of_def)
  have mem1: "?ins ! 1 \<in> set (take 2 (drop 1 ?ins))" if "2 \<le> length ?ins"
  proof -
    from that have "take 2 (drop 1 ?ins) ! 0 = ?ins ! 1" by simp
    moreover from that have "0 < length (take 2 (drop 1 ?ins))" by simp
    ultimately show ?thesis by (metis nth_mem)
  qed
  have mem2: "?ins ! 2 \<in> set (take 2 (drop 1 ?ins))" if "3 \<le> length ?ins"
  proof -
    from that have "take 2 (drop 1 ?ins) ! 1 = ?ins ! 2" by (simp add: numeral_2_eq_2)
    moreover from that have "1 < length (take 2 (drop 1 ?ins))" by simp
    ultimately show ?thesis by (metis nth_mem)
  qed
  show ?thesis
    using mem1 mem2 by (auto simp: res split: if_splits)
qed

theorem channel_weight_scale_zero_point_witness:
  "get_input_node dq_linear_graph 10 1 = Inr (ANode 9)
   \<and> is_dequant sample_env dq_linear_graph 9
   \<and> get_input_node dq_linear_graph 9 0 = Inr (ANode 6)
   \<and> is_param_node sample_env () dq_linear_graph 6
   \<and> is_per_channel sample_env dq_linear_graph 9
   \<and> all_input_nodes dq_linear_graph 9 = [6, 7, 8]
   \<and> GEMMConfig_get_weight_deps (LinearConfig all_precisions False) sample_env ()
        dq_linear_graph 10 DYNAMIC_QUANT = Inr (True, [9, 6, 7, 8])
   \<and> 7 \<in> set [9, 6, 7, 8 :: nat] \<and> 8 \<in> set [9, 6, 7, 8 :: nat]"
proof -
  let ?cfg = "LinearConfig all_precisions False"
  let ?g = dq_linear_graph
  have w: "weight_idx ?cfg = 1" by (simp add: LinearConfig_def)
  have h0: "DYNAMIC_QUANT \<noteq> FP32" by simp
  have h1: "get_input_node ?g 10 (weight_idx ?cfg) = Inr (ANode 9)" unfolding w by code_simp
  have h2: "is_dequant sample_env ?g 9" by code_simp
  have h3: "get_input_node ?g 9 0 = Inr (ANode 6)" by code_simp
  have h4: "is_param_node sample_env () ?g 6" by code_simp
  have h5: "is_per_channel sample_env ?g 9" by code_simp
  then have h5': "is_per_channel sample_env ?g 9 \<or> is_per_channel_group sample_env ?g 9" ..
  have ins: "all_input_nodes ?g 9 = [6, 7, 8]" by code_simp
  have r: "GEMMConfig_get_weight_deps ?cfg sample_env () ?g 10 DYNAMIC_QUANT
             = Inr (True, [9, 6, 7, 8])" by code_simp
  from channel_weight_scale_zero_point [OF h0 h1 h2 h3 h4 h5'] r
  have "all_input_nodes ?g 9 ! 1 \<in> set [9, 6, 7, 8]"
       "all_input_nodes ?g 9 ! 2 \<in> set [9, 6, 7, 8]"
    by (simp_all add: ins)
  with h1 h2 h3 h4 h5 ins r show ?thesis by (simp add: w)
qed

subsection \<open>The chain of a dynamically quantized activation\<close>

text \<open>
  Claim C4 as stated fails: on a node detected as \<^verbatim>\<open>DYNAMIC_QUANT\<close> whose second
  \<^verbatim>\<open>getitem\<close> (node 3) reads from a node (13) that is no \<^verbatim>\<open>choose_qparams\<close>,
  \<^verbatim>\<open>_get_act_deps\<close> succeeds.
\<close>

theorem act_deps_second_getitem_unchecked:
  "detect_precision (LinearConfig all_precisions False) sample_env dq_linear_graph_zp 10
     = Inr DYNAMIC_QUANT
   \<and> subscript (args (dq_linear_graph_zp 4)) 2 = Inr (ANode 3)
   \<and> get_input_node dq_linear_graph_zp 3 0 = Inr (ANode 13)
   \<and> \<not> is_qparam sample_env dq_linear_graph_zp 13
   \<and> GEMMConfig_get_act_deps (LinearConfig all_precisions False) sample_env ()
        dq_linear_graph_zp 10 DYNAMIC_QUANT = Inr (True, [5, 4, 2, 3, 1])"
  by code_simp

lemma node_of_Inr_iff: "node_of a = Inr m \<longleftrightarrow> a = ANode m"
  by (cases a) (simp_all add: node_of_def)

text \<open>
  Claim C4, amended. For the precision \<^verbatim>\<open>DYNAMIC_QUANT\<close>, \<^verbatim>\<open>_get_act_deps\<close>
  succeeds only if the activation operand is a dequantize node, its operand 0 a
  quantize node, the operands 1 and 2 of the quantize node (after the affine
  extraction when applicable) are nodes and \<^verbatim>\<open>getitem\<close> nodes, and operand 0 of
  the first of them is a \<^verbatim>\<open>choose_qparams\<close> node; the closure is then these five
  nodes. When it returns validity false, it returns no nodes. The source of the
  second \<^verbatim>\<open>getitem\<close> is not inspected.
\<close>

theorem act_deps_dynamic_chain:
  assumes "GEMMConfig_get_act_deps cfg env ep g n DYNAMIC_QUANT = Inr (valid, deps)"
  shows "(valid \<longrightarrow>
            (\<exists>dq q getitem1 getitem2 choose_qparam.
               get_input_node g n (act_idx cfg) = Inr (ANode dq) \<and> is_dequant env g dq
               \<and> get_input_node g dq 0 = Inr (ANode q) \<and> is_quant env g q
               \<and> subscript (if is_affine_qdq env g q
                             then extract_qdq_affine_op_args_for_decomposed_ops env g q
                             else args (g q)) 1 = Inr (ANode getitem1)
               \<and> subscript (if is_affine_qdq env g q
                             then extract_qdq_affine_op_args_for_decomposed_ops env g q
                             else args (g q)) 2 = Inr (ANode getitem2)
               \<and> is_getitem env g getitem1 \<and> is_getitem env g getitem2
               \<and> get_input_node g getitem1 0 = Inr (ANode choose_qparam)
               \<and> is_qparam env g choose_qparam
               \<and> deps = [dq, q, getitem1, getitem2, choose_qparam]))
       \<and> (\<not> valid \<longrightarrow> deps = [])"
  using assms unfolding GEMMConfig_get_act_deps_def Let_def
  by (auto simp: bindE_Inr_iff node_of_Inr_iff split: if_splits)

theorem act_deps_dynamic_chain_witness:
  "GEMMConfig_get_act_deps (LinearConfig all_precisions False) sample_env ()
     dq_linear_graph 10 DYNAMIC_QUANT = Inr (True, [5, 4, 2, 3, 1])
   \<and> (\<exists>dq q getitem1 getitem2 choose_qparam.
         get_input_node dq_linear_graph 10 0 = Inr (ANode dq)
         \<and> is_dequant sample_env dq_linear_graph dq
         \<and> get_input_node dq_linear_graph dq 0 = Inr (ANode q)
         \<and> is_quant sample_env dq_linear_graph q
         \<and> is_getitem sample_env dq_linear_graph getitem1
         \<and> is_getitem sample_env dq_linear_graph getitem2
         \<and> get_input_node dq_linear_graph getitem1 0 = Inr (ANode choose_qparam)
         \<and> is_qparam sample_env dq_linear_graph choose_qparam
         \<and> [5, 4, 2, 3, 1] = [dq, q, getitem1, getitem2, choose_qparam])"
proof -
  let ?cfg = "LinearConfig all_precisions False"
  have a: "act_idx ?cfg = 0" by (simp add: LinearConfig_def)
  have r: "GEMMConfig_get_act_deps ?cfg sample_env () dq_linear_graph 10 DYNAMIC_QUANT
             = Inr (True, [5, 4, 2, 3, 1])" by code_simp
  from act_deps_dynamic_chain [OF r]
  obtain dq q getitem1 getitem2 choose_qparam where
    "get_input_node dq_linear_graph 10 0 = Inr (ANode dq)"
    "is_dequant sample_env dq_linear_graph dq"
    "get_input_node dq_linear_graph dq 0 = Inr (ANode q)"
    "is_quant sample_env dq_linear_graph q"
    "is_getitem sample_env dq_linear_graph getitem1"
    "is_getitem sample_env dq_linear_graph getitem2"
    "get_input_node dq_linear_graph getitem1 0 = Inr (ANode choose_qparam)"
    "is_qparam sample_env dq_linear_graph choose_qparam"
    "[5, 4, 2, 3, 1] = [dq, q, getitem1, getitem2, choose_qparam]"
    unfolding a by auto
  with r show ?thesis by blast
qed

subsection \<open>Validation of the source partition\<close>

text \<open>
  Claim C2. The evaluation of \<^verbatim>\<open>AddmmConfig.get_deps_from_src_partition\<close> on
  the sample \<^verbatim>\<open>addmm\<close> node: the bias among the fake arguments (node 4) is not
  one of the partition's nodes, and the partition is accepted all the same, with
  validity true and five nodes. The index of the bias of \<^verbatim>\<open>AddmmConfig\<close> is 0,
  for which \<^verbatim>\<open>self.bias_idx and ...\<close> is false.
\<close>

theorem addmm_bias_outside_partition_accepted:
  "bias_idx (AddmmConfig all_precisions False) = Some 0
   \<and> build_fake_args addmm_graph addmm_partition (args (addmm_graph 3)) = Some (Inr [4, 0, 1])
   \<and> 4 \<notin> set (sp_nodes addmm_partition)
   \<and> invalid_source_partition (AddmmConfig all_precisions False) addmm_partition [4, 0, 1]
       = Inr False
   \<and> map_option (map_sum id fst)
         (get_deps_from_src_partition (AddmmConfig all_precisions False) sample_env ()
            addmm_state 3 addmm_partition)
       = Some (Inr (True, [4, 1, 5, 2, 3]))"
  by code_simp

text \<open>
  The conditions of the validation that are enforced. Unless
  \<^verbatim>\<open>get_deps_from_src_partition\<close> rejects the partition (validity false, no nodes,
  state untouched), the fake activation argument is an input node of the
  partition, the fake weight argument is a node or an input node of it, the
  partition has one output node, and a bias index other than 0 points to a node
  of the partition.
\<close>

theorem source_partition_enforced_conditions:
  assumes "get_deps_from_src_partition cfg env ep s n sp = Some (Inr ((v, d), s'))"
    and "build_fake_args (nodes s) sp (args (nodes s n)) = Some (Inr fake_args)"
  shows "(fake_args ! act_idx cfg \<in> set (sp_input_nodes sp)
          \<and> fake_args ! weight_idx cfg \<in> set (sp_nodes sp) \<union> set (sp_input_nodes sp)
          \<and> length (sp_output_nodes sp) = 1
          \<and> (\<forall>b. bias_idx cfg = Some b \<and> b \<noteq> 0 \<longrightarrow> fake_args ! b \<in> set (sp_nodes sp)))
         \<or> (\<not> v \<and> d = [] \<and> s' = s)"
  using assms(1)
proof (cases rule: get_deps_from_src_partition_cases)
  case (1 fa)
  then show ?thesis by simp
next
  case (2 fa deps s3)
  with assms(2) have "invalid_source_partition cfg sp fake_args = Inr False" by simp
  then have "fake_args ! act_idx cfg \<in> set (sp_input_nodes sp)
          \<and> fake_args ! weight_idx cfg \<in> set (sp_nodes sp) \<union> set (sp_input_nodes sp)
          \<and> length (sp_output_nodes sp) = 1
          \<and> (\<forall>b. bias_idx cfg = Some b \<and> b \<noteq> 0 \<longrightarrow> fake_args ! b \<in> set (sp_nodes sp))"
    unfolding invalid_source_partition_def
    by (auto simp: bindE_Inr_iff subscript_def split: option.splits if_splits)
  then show ?thesis ..
qed

theorem source_partition_enforced_conditions_witness:
  "\<exists>s'. get_deps_from_src_partition (AddmmConfig all_precisions False) sample_env ()
           addmm_state 3 addmm_partition = Some (Inr ((True, [4, 1, 5, 2, 3]), s'))
        \<and> build_fake_args (nodes addmm_state) addmm_partition (args (nodes addmm_state 3))
           = Some (Inr [4, 0, 1])
        \<and> [4, 0, 1] ! 1 \<in> set (sp_input_nodes addmm_partition)
        \<and> [4, 0, 1] ! 2 \<in> set (sp_nodes addmm_partition) \<union> set (sp_input_nodes addmm_partition)
        \<and> length (sp_output_nodes addmm_partition) = 1"
proof -
  let ?cfg = "AddmmConfig all_precisions False"
  have i: "act_idx ?cfg = 1" "weight_idx ?cfg = 2" by (simp_all add: AddmmConfig_def)
  have "map_option (map_sum id fst) (get_deps_from_src_partition ?cfg sample_env ()
          addmm_state 3 addmm_partition) = Some (Inr (True, [4, 1, 5, 2, 3]))"
    by code_simp
  then obtain s' where e: "get_deps_from_src_partition ?cfg sample_env () addmm_state 3
      addmm_partition = Some (Inr ((True, [4, 1, 5, 2, 3]), s'))"
    by (rule Some_Inr_fstE)
  have f: "build_fake_args (nodes addmm_state) addmm_partition (args (nodes addmm_state 3))
             = Some (Inr [4, 0, 1])"
    by code_simp
  from source_partition_enforced_conditions [OF e f] e f show ?thesis
    unfolding i by auto
qed

end
